theory Spec2Isabelle
  imports Main "HOL-Library.Sublist" "HOL-Library.Multiset"
begin

section \<open>Python values used by the chatbot\<close>

subsection \<open>Strings\<close>

text \<open>
  A Python \<open>str\<close> is modelled by its UTF-8 encoding, a \<^typ>\<open>string\<close>. The keywords the
  program searches for are ASCII, and a byte of a multi-byte UTF-8 sequence is never an ASCII
  byte, so a substring test for a keyword gives the same answer on the bytes as on the code
  points. \<open>utf8 n\<close> is the encoding of the code point \<open>n\<close>; it is used to write down the
  literals of the source that hold characters outside ASCII.
\<close>

definition nl :: string where
  "nl = [CHR 0x0A]"

definition utf8 :: "nat \<Rightarrow> string" where
  "utf8 n =
     (if n < 0x80 then [char_of n]
      else if n < 0x800 then [char_of (0xC0 + n div 64), char_of (0x80 + n mod 64)]
      else if n < 0x10000 then
        [char_of (0xE0 + n div 4096), char_of (0x80 + n div 64 mod 64), char_of (0x80 + n mod 64)]
      else
        [char_of (0xF0 + n div 262144), char_of (0x80 + n div 4096 mod 64),
         char_of (0x80 + n div 64 mod 64), char_of (0x80 + n mod 64)])"

text \<open>
  \<open>str.lower()\<close> on the ASCII letters. Bytes outside ASCII are left as they are (Python
  also maps letters outside ASCII). \<open>upper_char\<close> is what \<open>str.upper()\<close> does with an
  ASCII character.
\<close>

definition lower_char :: "char \<Rightarrow> char" where
  "lower_char c =
     (let n = (of_char c :: nat) in if 65 \<le> n \<and> n \<le> 90 then char_of (n + 32) else c)"

definition upper_char :: "char \<Rightarrow> char" where
  "upper_char c =
     (let n = (of_char c :: nat) in if 97 \<le> n \<and> n \<le> 122 then char_of (n - 32) else c)"

definition lower :: "string \<Rightarrow> string" where
  "lower s = map lower_char s"

text \<open>Python's \<open>sub in s\<close> on strings: \<open>sub\<close> occurs in \<open>s\<close> as a contiguous run.\<close>

fun str_in :: "string \<Rightarrow> string \<Rightarrow> bool" where
  "str_in sub [] = (sub = [])"
| "str_in sub (c # cs) = (prefix sub (c # cs) \<or> str_in sub cs)"

subsection \<open>JSON values and dictionaries\<close>

text \<open>
  What \<open>json.loads\<close> returns. An object is kept as the list of its members in the order of
  the text; Python builds a \<open>dict\<close> from it, in which the last member with a given key wins.
  A number is an \<open>int\<close> (\<open>JNum\<close>) or a \<open>float\<close>, kept as the text of its literal
  (\<open>JFloat\<close>).
\<close>

datatype json =
    JNull
  | JBool bool
  | JNum int
  | JFloat string
  | JStr string
  | JArr "json list"
  | JObj "(string \<times> json) list"

definition dict_get :: "(string \<times> 'v) list \<Rightarrow> string \<Rightarrow> 'v option" where
  "dict_get d k = map_of (rev d) k"

subsection \<open>Exceptions\<close>

datatype error =
    JSONDecodeError
  | AttributeError
  | ValidationError
  | ValueError

text \<open>\<open>list.remove(x)\<close>: drops the first element equal to \<open>x\<close>, raises when there is none.\<close>

fun list_remove :: "'a \<Rightarrow> 'a list \<Rightarrow> error + 'a list" where
  "list_remove x [] = Inl ValueError"
| "list_remove x (y # ys) =
     (if y = x then Inr ys
      else (case list_remove x ys of Inl e \<Rightarrow> Inl e | Inr zs \<Rightarrow> Inr (y # zs)))"

section \<open>Models\<close>

record BuildNotification =
  buildId :: string
  workflow :: string
  status :: string
  details :: "(string \<times> json) list"

record ChatMessage =
  id_msg :: string
  sender :: string
  content :: string
  timestamp :: string
  read :: bool
  status :: string
  type :: string
  metadata :: "(string \<times> string) list option"

section \<open>The process state and its environment\<close>

text \<open>A \<open>WebSocket\<close> object is known by its identity.\<close>

type_synonym WebSocket = nat

text \<open>
  The effects of the program that leave the process: a call of \<open>send_json\<close> on a connection
  with the frame \<open>{"type": t, "message": m}\<close>, and whether it returned (\<open>True\<close>) or raised,
  and a call of \<open>asyncio.sleep\<close>.
\<close>

datatype event =
    SendJson WebSocket string ChatMessage bool
  | Sleep nat

text \<open>
  The two module-level lists of the source, \<open>messages\<close> and \<open>active_connections\<close>, with two
  fields added for the model: \<open>clock\<close> counts the calls made so far into the environment, and
  \<open>trace\<close> is the list of the effects so far, oldest first.
\<close>

record state =
  messages :: "ChatMessage list"
  active_connections :: "WebSocket list"
  clock :: nat
  trace :: "event list"

text \<open>
  What the source calls and does not define. Each answer may depend on the moment of the call,
  given by the clock.
  \<^item> \<open>uuid4 t\<close>: the text of \<open>uuid.uuid4()\<close>;
  \<^item> \<open>now t\<close>: the text of \<open>datetime.now().isoformat()\<close>;
  \<^item> \<open>send_json t ws\<close>: whether \<open>ws.send_json(...)\<close> returns (\<open>True\<close>) or raises;
  \<^item> \<open>coerce_str v\<close>: what pydantic makes of a value that is not a \<open>str\<close> given for a field
    declared \<open>str\<close>: \<open>Some\<close> of the text it is converted to, or \<open>None\<close> when the
    constructor raises a validation error;
  \<^item> \<open>format_value v\<close>: the text an f-string prints for the value \<open>v\<close>;
  \<^item> \<open>str_upper s\<close>: the text of \<open>s.upper()\<close>, for a text \<open>s\<close> that holds characters
    outside ASCII.
\<close>

record env =
  uuid4 :: "nat \<Rightarrow> string"
  now :: "nat \<Rightarrow> string"
  send_json :: "nat \<Rightarrow> WebSocket \<Rightarrow> bool"
  coerce_str :: "json \<Rightarrow> string option"
  format_value :: "json \<Rightarrow> string"
  str_upper :: "string \<Rightarrow> string"

text \<open>A call that raises leaves the state as it was at that moment.\<close>

type_synonym result = "(error \<times> state) + state"

section \<open>Broadcast\<close>

text \<open>
  The first loop of \<open>broadcast\<close>: one \<open>send_json\<close> for each connection of the list, in
  order; a connection whose send raises is added to \<open>disconnected\<close>.
\<close>

fun send_each :: "env \<Rightarrow> ChatMessage \<Rightarrow> WebSocket list \<Rightarrow> WebSocket list \<Rightarrow> state
    \<Rightarrow> WebSocket list \<times> state" where
  "send_each e message [] disconnected st = (disconnected, st)"
| "send_each e message (connection # rest) disconnected st =
     (let ok = send_json e (clock st) connection;
          st' = st\<lparr>clock := clock st + 1,
                   trace := trace st @ [SendJson connection ''new-message'' message ok]\<rparr>
      in send_each e message rest (if ok then disconnected else disconnected @ [connection]) st')"

text \<open>The second loop: \<open>active_connections.remove(conn)\<close> for each collected connection.\<close>

fun remove_each :: "WebSocket list \<Rightarrow> state \<Rightarrow> result" where
  "remove_each [] st = Inr st"
| "remove_each (conn # rest) st =
     (case list_remove conn (active_connections st) of
        Inl err \<Rightarrow> Inl (err, st)
      | Inr conns \<Rightarrow> remove_each rest (st\<lparr>active_connections := conns\<rparr>))"

definition broadcast :: "env \<Rightarrow> ChatMessage \<Rightarrow> state \<Rightarrow> result" where
  "broadcast e message st =
     (case send_each e message (active_connections st) [] st of
        (disconnected, st') \<Rightarrow> remove_each disconnected st')"

section \<open>Bot responses\<close>

text \<open>The five literal replies of \<open>handle_bot_response\<close>, in the order of the source.\<close>

definition response_build :: string where
  \<open>response_build = concat
    [utf8 0x1F4CA @ '' **Status de Builds**'' @ nl,
     nl,
     utf8 0x2705 @ '' CI/CD Pipeline (main): SUCCESS'' @ nl,
     utf8 0x23F1 @ utf8 0xFE0F @ '' Dura'' @ utf8 0xE7 @ utf8 0xE3 @ ''o: 2m 15s'' @ nl,
     utf8 0x1F9EA @ '' Testes: 50/50 passed'' @ nl,
     utf8 0x1F4C8 @ '' Coverage: 85%'' @ nl,
     nl,
     utf8 0x2705 @ '' Release (v1.0.0): SUCCESS'' @ nl,
     utf8 0x23F1 @ utf8 0xFE0F @ '' Publicado no crates.io'' @ nl,
     nl,
     utf8 0x26A0 @ utf8 0xFE0F @ '' Deploy (develop): RUNNING...'' @ nl,
     utf8 0x23F3 @ '' Tempo decorrido: 1m 30s'']\<close>

definition response_erro :: string where
  \<open>response_erro = concat
    [utf8 0x274C @ '' **Erros Detectados**'' @ nl,
     nl,
     utf8 0x1F534 @ '' Deploy (feature/new-api): FAILED'' @ nl,
     nl,
     ''Erro:'' @ nl,
     ''```'' @ nl,
     ''Test failed: authentication_test'' @ nl,
     ''Timeout after 5000ms'' @ nl,
     ''```'' @ nl,
     nl,
     ''Arquivo: src/auth.rs:145'' @ nl,
     nl,
     ''Solu'' @ utf8 0xE7 @ utf8 0xE3 @ ''o sugerida:'' @ nl,
     ''Ajuste o timeout ou revise a l'' @ utf8 0xF3 @ ''gica de autentica'' @ utf8 0xE7
       @ utf8 0xE3 @ ''o.'']\<close>

definition response_sucesso :: string where
  \<open>response_sucesso = concat
    [utf8 0x2705 @ '' **Todos os Builds Passaram!**'' @ nl,
     nl,
     utf8 0x1F3C6 @ '' Taxa de Sucesso: 96.67%'' @ nl,
     utf8 0x1F4C8 @ '' Tend'' @ utf8 0xEA @ ''ncia: +2.3% desde ontem'' @ nl,
     nl,
     utf8 0x1F680 @ '' '' @ utf8 0xDA @ ''ltimas releases:'' @ nl,
     utf8 0x2022 @ '' v2.1.0 - Released 2h ago'' @ nl,
     utf8 0x2022 @ '' v2.0.9 - Released 1d ago'' @ nl,
     utf8 0x2022 @ '' v2.0.8 - Released 2d ago'' @ nl,
     nl,
     ''Parab'' @ utf8 0xE9 @ ''ns! '' @ utf8 0x1F389]\<close>

definition response_help :: string where
  \<open>response_help = concat
    [utf8 0x1F4DA @ '' Aqui est'' @ utf8 0xE3 @ ''o os comandos dispon'' @ utf8 0xED
       @ ''veis:'' @ nl,
     nl,
     utf8 0x2022 @ '' **build status** - Ver status dos builds'' @ nl,
     utf8 0x2022 @ '' **erros** - Listar erros recentes'' @ nl,
     utf8 0x2022 @ '' **success** - Mostrar builds bem-sucedidos'' @ nl,
     utf8 0x2022 @ '' **deploy** - Status de deployments'' @ nl,
     utf8 0x2022 @ '' **metrics** - M'' @ utf8 0xE9 @ ''tricas gerais'']\<close>

definition response_default :: string where
  \<open>response_default = concat
    [utf8 0x1F44B @ '' Oi! Sou o VIZZIO Bot. Posso ajudar com:'' @ nl,
     nl,
     utf8 0x1F50D @ '' **build status** - Ver status dos builds'' @ nl,
     utf8 0x26A0 @ utf8 0xFE0F @ '' **erros** - Listar erros recentes'' @ nl,
     utf8 0x2705 @ '' **success** - Mostrar builds bem-sucedidos'' @ nl,
     utf8 0x1F4CA @ '' **metrics** - M'' @ utf8 0xE9 @ ''tricas gerais'' @ nl,
     utf8 0x1F680 @ '' **deploy** - Status de deployments'' @ nl,
     nl,
     ''Tente: "build status", "erros", "success" '']\<close>

text \<open>
  The \<open>if\<close>/\<open>elif\<close> chain of \<open>handle_bot_response\<close>: the pair \<open>(response, msg_type)\<close> it
  chooses for a text. The question mark is looked for in the text as given, the words in its
  lower-cased form.
\<close>

definition bot_reply :: "string \<Rightarrow> string \<times> string" where
  "bot_reply user_message =
     (let msg_lower = lower user_message in
      if str_in ''build'' msg_lower \<or> str_in ''status'' msg_lower then
        (response_build, ''notification'')
      else if str_in ''erro'' msg_lower \<or> str_in ''fail'' msg_lower then
        (response_erro, ''alert'')
      else if str_in ''sucesso'' msg_lower \<or> str_in ''success'' msg_lower then
        (response_sucesso, ''success'')
      else if str_in ''help'' msg_lower \<or> str_in ''ajuda'' msg_lower
              \<or> str_in ''?'' user_message then
        (response_help, ''text'')
      else
        (response_default, ''text''))"

text \<open>
  \<open>handle_bot_response\<close> is called with whatever the frame held as its content. A value
  that is not a \<open>str\<close> has no method \<open>lower\<close>, and the call raises at its first line.
\<close>

definition handle_bot_response :: "env \<Rightarrow> json \<Rightarrow> state \<Rightarrow> result" where
  "handle_bot_response e user_message st =
     (case user_message of
        JStr text \<Rightarrow>
          (case bot_reply text of
             (response, msg_type) \<Rightarrow>
               (let bot_msg = \<lparr>id_msg = ''msg-'' @ uuid4 e (clock st),
                               sender = ''bot'',
                               content = response,
                               timestamp = now e (clock st),
                               read = False,
                               status = ''delivered'',
                               type = msg_type,
                               metadata = None\<rparr>;
                    st' = st\<lparr>messages := messages st @ [bot_msg], clock := clock st + 1\<rparr>
                in broadcast e bot_msg st'))
      | _ \<Rightarrow> Inl (AttributeError, st))"

section \<open>The websocket session\<close>

text \<open>
  What \<open>receive_text\<close> brings: a text, given by what \<open>json.loads\<close> does with it (\<open>None\<close>
  when it raises \<open>JSONDecodeError\<close>, \<open>Some v\<close> when it returns \<open>v\<close>), or the exception
  \<open>WebSocketDisconnect\<close>.
\<close>

datatype received =
    Text "json option"
  | WebSocketDisconnect

definition sleep :: "nat \<Rightarrow> state \<Rightarrow> state" where
  "sleep n st = st\<lparr>clock := clock st + 1, trace := trace st @ [Sleep n]\<rparr>"

text \<open>The value a field declared \<open>str\<close> takes from a JSON value, if the model accepts it.\<close>

definition str_field :: "env \<Rightarrow> json \<Rightarrow> string option" where
  "str_field e v = (case v of JStr s \<Rightarrow> Some s | _ \<Rightarrow> coerce_str e v)"

text \<open>One turn of the \<open>while True\<close> loop, after \<open>receive_text\<close> has returned.\<close>

definition loop_body :: "env \<Rightarrow> json option \<Rightarrow> state \<Rightarrow> result" where
  "loop_body e data st =
     (case data of
        None \<Rightarrow> Inl (JSONDecodeError, st)
      | Some (JObj message_data) \<Rightarrow>
          if dict_get message_data ''type'' = Some (JStr ''send-message'') then
            (let content = (case dict_get message_data ''content'' of
                              None \<Rightarrow> JStr [] | Some v \<Rightarrow> v);
                 st0 = st\<lparr>clock := clock st + 1\<rparr>
             in case str_field e content of
                  None \<Rightarrow> Inl (ValidationError, st0)
                | Some text \<Rightarrow>
                    (let user_msg = \<lparr>id_msg = ''msg-'' @ uuid4 e (clock st),
                                      sender = ''user'',
                                      content = text,
                                      timestamp = now e (clock st),
                                      read = True,
                                      status = ''sent'',
                                      type = ''text'',
                                      metadata = None\<rparr>;
                         st1 = st0\<lparr>messages := messages st0 @ [user_msg]\<rparr>
                     in case broadcast e user_msg st1 of
                          Inl err \<Rightarrow> Inl err
                        | Inr st2 \<Rightarrow> handle_bot_response e content (sleep 1 st2)))
          else Inr st
      | Some _ \<Rightarrow> Inl (AttributeError, st))"

text \<open>
  How the endpoint stands after the frames received so far: still in the loop and waiting in
  \<open>receive_text\<close>, returned after the \<open>except WebSocketDisconnect\<close> branch, or left by an
  exception that nothing caught.
\<close>

datatype outcome =
    Receiving state
  | Returned state
  | Raised error state

fun receive_loop :: "env \<Rightarrow> WebSocket \<Rightarrow> received list \<Rightarrow> state \<Rightarrow> outcome" where
  "receive_loop e websocket [] st = Receiving st"
| "receive_loop e websocket (WebSocketDisconnect # rest) st =
     (case list_remove websocket (active_connections st) of
        Inl err \<Rightarrow> Raised err st
      | Inr conns \<Rightarrow> Returned (st\<lparr>active_connections := conns\<rparr>))"
| "receive_loop e websocket (Text data # rest) st =
     (case loop_body e data st of
        Inl (err, st') \<Rightarrow> Raised err st'
      | Inr st' \<Rightarrow> receive_loop e websocket rest st')"

definition websocket_endpoint :: "env \<Rightarrow> WebSocket \<Rightarrow> received list \<Rightarrow> state \<Rightarrow> outcome" where
  "websocket_endpoint e websocket inbound st =
     receive_loop e websocket inbound
       (st\<lparr>active_connections := active_connections st @ [websocket]\<rparr>)"

section \<open>API routes\<close>

definition emoji_of :: "string \<Rightarrow> string" where
  "emoji_of s =
     (case dict_get [(''success'', utf8 0x2705),
                     (''failure'', utf8 0x274C),
                     (''running'', utf8 0x1F504),
                     (''cancelled'', utf8 0x26A0 @ utf8 0xFE0F)] s of
        None \<Rightarrow> utf8 0x1F4E2
      | Some em \<Rightarrow> em)"

definition msg_type_of :: "string \<Rightarrow> string" where
  "msg_type_of s =
     (case dict_get [(''failure'', ''alert''), (''success'', ''success'')] s of
        None \<Rightarrow> ''notification''
      | Some t \<Rightarrow> t)"

text \<open>\<open>details.get(key, default)\<close> as the f-string prints it; a \<open>str\<close> is printed as it is.\<close>

definition detail :: "env \<Rightarrow> (string \<times> json) list \<Rightarrow> string \<Rightarrow> string \<Rightarrow> string" where
  "detail e d key default_text =
     (case dict_get d key of
        None \<Rightarrow> default_text
      | Some (JStr s) \<Rightarrow> s
      | Some v \<Rightarrow> format_value e v)"

text \<open>
  \<open>str.upper()\<close>: on a text of ASCII characters it maps the letters a to z to A to Z and
  leaves the rest; on a text with a character outside ASCII (a byte from 128 on in the
  encoding) the result is Python's, which the environment gives.
\<close>

definition upper :: "env \<Rightarrow> string \<Rightarrow> string" where
  "upper e s =
     (if list_all (\<lambda>c. (of_char c :: nat) < 128) s then map upper_char s else str_upper e s)"

definition notify_content :: "env \<Rightarrow> BuildNotification \<Rightarrow> string" where
  "notify_content e notification = concat
     [emoji_of (BuildNotification.status notification) @ '' **'' @ workflow notification
        @ ''** - '' @ upper e (BuildNotification.status notification) @ nl,
      nl,
      utf8 0x1F4CB @ '' Build ID: '' @ buildId notification @ nl,
      utf8 0x23F1 @ utf8 0xFE0F @ '' Dura'' @ utf8 0xE7 @ utf8 0xE3 @ ''o: ''
        @ detail e (details notification) ''duration'' ''N/A'' @ ''s'' @ nl,
      utf8 0x1F9EA @ '' Testes: '' @ detail e (details notification) ''testsPassed'' ''0''
        @ ''/'' @ detail e (details notification) ''testsRun'' ''0'' @ '' passed'' @ nl,
      utf8 0x1F4C8 @ '' Coverage: '' @ detail e (details notification) ''coverage'' ''0''
        @ ''%'']"

definition notify_build :: "env \<Rightarrow> BuildNotification \<Rightarrow> state
    \<Rightarrow> (error \<times> state) + ((string \<times> bool) list \<times> state)" where
  "notify_build e notification st =
     (let bot_msg = \<lparr>id_msg = ''notif-'' @ uuid4 e (clock st),
                     sender = ''bot'',
                     content = notify_content e notification,
                     timestamp = now e (clock st),
                     read = False,
                     status = ''delivered'',
                     type = msg_type_of (BuildNotification.status notification),
                     metadata = Some [(''buildId'', buildId notification),
                                      (''workflow'', workflow notification)]\<rparr>;
          st' = st\<lparr>messages := messages st @ [bot_msg], clock := clock st + 1\<rparr>
      in case broadcast e bot_msg st' of
           Inl err \<Rightarrow> Inl err
         | Inr st'' \<Rightarrow> Inr ([(''success'', True)], st''))"

text \<open>
  Python's slice \<open>xs[start:]\<close>: a negative \<open>start\<close> counts from the end, and the bounds are
  clipped to the list.
\<close>

definition slice_from :: "int \<Rightarrow> 'a list \<Rightarrow> 'a list" where
  "slice_from start xs =
     (let n = int (length xs);
          i = (if start < 0 then max (n + start) 0 else min start n)
      in drop (nat i) xs)"

text \<open>\<open>get_messages\<close>; the query parameter \<open>limit\<close> is 50 when the request gives none.\<close>

definition get_messages :: "int option \<Rightarrow> state \<Rightarrow> ChatMessage list" where
  "get_messages limit st =
     slice_from (- (case limit of None \<Rightarrow> 50 | Some l \<Rightarrow> l)) (messages st)"

definition get_unread :: "state \<Rightarrow> (string \<times> int) list" where
  "get_unread st =
     (let unread = sum_list (map (\<lambda>msg. 1)
                      (filter (\<lambda>msg. \<not> read msg \<and> sender msg = ''bot'') (messages st)))
      in [(''unread'', unread)])"

section \<open>Vocabulary of the statements\<close>

text \<open>
  One pass of \<open>broadcast\<close> over the connections \<open>conns\<close>, begun when the clock shows
  \<open>t\<close>: each connection in order, with the outcome of the send made to it.
\<close>

definition attempts :: "env \<Rightarrow> nat \<Rightarrow> WebSocket list \<Rightarrow> (WebSocket \<times> bool) list" where
  "attempts e t conns = map (\<lambda>(k, c). (c, send_json e k c)) (enumerate t conns)"

text \<open>The connections of a pass whose send raised, and those whose send returned.\<close>

definition failed :: "(WebSocket \<times> bool) list \<Rightarrow> WebSocket list" where
  "failed as = map fst (filter (\<lambda>p. \<not> snd p) as)"

definition delivered :: "(WebSocket \<times> bool) list \<Rightarrow> WebSocket list" where
  "delivered as = map fst (filter snd as)"

text \<open>The effects of a pass that carries \<open>message\<close>.\<close>

definition sends :: "ChatMessage \<Rightarrow> (WebSocket \<times> bool) list \<Rightarrow> event list" where
  "sends message as = map (\<lambda>(c, ok). SendJson c ''new-message'' message ok) as"

section \<open>Example environments and states\<close>

text \<open>The process at its start: both lists empty.\<close>

definition startup :: state where
  "startup = \<lparr>messages = [], active_connections = [], clock = 0, trace = []\<rparr>"

text \<open>
  An environment in which every send returns, and one in which every send raises. In both,
  pydantic refuses what is not a \<open>str\<close>. The texts of the examples are ASCII, so that
  \<open>str_upper\<close> is not asked.
\<close>

definition env_up :: env where
  "env_up = \<lparr>uuid4 = (\<lambda>t. ''id''), now = (\<lambda>t. ''ts''), send_json = (\<lambda>t ws. True),
             coerce_str = (\<lambda>v. None), format_value = (\<lambda>v. ''v''),
             str_upper = (\<lambda>s. s)\<rparr>"

definition env_down :: env where
  "env_down = env_up\<lparr>send_json := (\<lambda>t ws. False)\<rparr>"

text \<open>An entry and frames for the examples.\<close>

definition hello :: ChatMessage where
  "hello = \<lparr>id_msg = ''msg-1'', sender = ''user'', content = ''hello'', timestamp = ''ts'',
            read = True, status = ''sent'', type = ''text'', metadata = None\<rparr>"

definition send_build_status :: "(string \<times> json) list" where
  "send_build_status = [(''type'', JStr ''send-message''), (''content'', JStr ''build status'')]"

definition send_no_content :: "(string \<times> json) list" where
  "send_no_content = [(''type'', JStr ''send-message'')]"

definition send_ping :: "(string \<times> json) list" where
  "send_ping = [(''type'', JStr ''ping'')]"

text \<open>The notification of the example: a failed build with no details.\<close>

definition build_42 :: BuildNotification where
  "build_42 = \<lparr>buildId = ''42'', workflow = ''CI'', BuildNotification.status = ''failure'',
               details = []\<rparr>"

text \<open>A running build for which two of the four details are known.\<close>

definition build_43 :: BuildNotification where
  "build_43 = \<lparr>buildId = ''43'', workflow = ''Deploy'', BuildNotification.status = ''running'',
               details = [(''testsPassed'', JStr ''48''), (''coverage'', JStr ''85.5'')]\<rparr>"

section \<open>Broadcast: what is sent and what is pruned\<close>

lemma attempts_Nil [simp]: "attempts e t [] = []"
  by (simp add: attempts_def)

lemma attempts_Cons [simp]:
  "attempts e t (c # cs) = (c, send_json e t c) # attempts e (Suc t) cs"
  by (simp add: attempts_def)

lemma fst_attempts [simp]: "map fst (attempts e t cs) = cs"
  by (induction cs arbitrary: t) simp_all

lemma length_attempts [simp]: "length (attempts e t cs) = length cs"
  by (simp add: attempts_def)

lemma send_each_eq:
  "send_each e m cs dis st =
     (dis @ failed (attempts e (clock st) cs),
      st\<lparr>clock := clock st + length cs,
         trace := trace st @ sends m (attempts e (clock st) cs)\<rparr>)"
  by (induction cs arbitrary: dis st) (simp_all add: sends_def failed_def)

lemma list_remove_eq:
  "list_remove x xs = (if x \<in> set xs then Inr (remove1 x xs) else Inl ValueError)"
  by (induction xs) auto

text \<open>
  Removing, one after the other, connections that are all in the list, each as often as
  it is removed, never raises.
\<close>

lemma remove_each_eq:
  "mset ds \<subseteq># mset (active_connections st) \<Longrightarrow>
   remove_each ds st =
     Inr (st\<lparr>active_connections := foldl (\<lambda>xs d. remove1 d xs) (active_connections st) ds\<rparr>)"
proof (induction ds arbitrary: st)
  case Nil
  show ?case by simp
next
  case (Cons d ds)
  from Cons.prems have mem: "d \<in> set (active_connections st)"
    by (metis mset_subset_eq_insertD set_mset_mset mset.simps(2))
  from Cons.prems have "mset ds \<subseteq># mset (remove1 d (active_connections st))"
    by (simp add: insert_subset_eq_iff)
  then show ?case
    using mem Cons.IH[of "st\<lparr>active_connections := remove1 d (active_connections st)\<rparr>"]
    by (simp add: list_remove_eq)
qed

lemma mset_foldl_remove1:
  "mset ds \<subseteq># mset xs \<Longrightarrow> mset (foldl (\<lambda>xs d. remove1 d xs) xs ds) + mset ds = mset xs"
proof (induction ds arbitrary: xs)
  case Nil
  show ?case by simp
next
  case (Cons d ds)
  from Cons.prems have mem: "d \<in> set xs"
    by (metis mset_subset_eq_insertD set_mset_mset mset.simps(2))
  from Cons.prems have "mset ds \<subseteq># mset (remove1 d xs)"
    by (simp add: insert_subset_eq_iff)
  from Cons.IH[OF this] mem show ?case by simp
qed

lemma delivered_failed:
  "mset (delivered (attempts e t cs)) + mset (failed (attempts e t cs)) = mset cs"
  by (induction cs arbitrary: t) (simp_all add: failed_def delivered_def)

lemma failed_subset: "mset (failed (attempts e t cs)) \<subseteq># mset cs"
  using delivered_failed[of e t cs] by (metis mset_subset_eq_add_right)

lemma remove1_distinct: "distinct xs \<Longrightarrow> remove1 d xs = filter (\<lambda>x. x \<noteq> d) xs"
proof (induction xs)
  case Nil
  show ?case by simp
next
  case (Cons a xs)
  have "filter (\<lambda>x. x \<noteq> d) xs = xs" if "d \<notin> set xs"
    using that by (auto simp: filter_id_conv)
  with Cons show ?case by auto
qed

lemma foldl_remove1_distinct:
  "distinct xs \<Longrightarrow> foldl (\<lambda>xs d. remove1 d xs) xs ds = filter (\<lambda>x. x \<notin> set ds) xs"
proof (induction ds arbitrary: xs)
  case Nil
  show ?case by simp
next
  case (Cons d ds)
  have "remove1 d xs = filter (\<lambda>x. x \<noteq> d) xs"
    using Cons.prems by (rule remove1_distinct)
  moreover have "distinct (remove1 d xs)"
    using Cons.prems by simp
  ultimately show ?case
    using Cons.IH[of "remove1 d xs"] by (auto intro: filter_cong)
qed

lemma pruned_mset:
  "mset (foldl (\<lambda>xs d. remove1 d xs) cs (failed (attempts e t cs)))
     = mset (delivered (attempts e t cs))"
proof -
  let ?as = "attempts e t cs"
  have "mset (foldl (\<lambda>xs d. remove1 d xs) cs (failed ?as)) + mset (failed ?as)
        = mset (delivered ?as) + mset (failed ?as)"
    using mset_foldl_remove1[OF failed_subset[of e t cs]] delivered_failed[of e t cs]
    by simp
  then show ?thesis by simp
qed

text \<open>The state a broadcast leaves; it never raises.\<close>

lemma broadcast_eq:
  "broadcast e m st =
     Inr (st\<lparr>clock := clock st + length (active_connections st),
             trace := trace st @ sends m (attempts e (clock st) (active_connections st)),
             active_connections := foldl (\<lambda>xs d. remove1 d xs) (active_connections st)
                (failed (attempts e (clock st) (active_connections st)))\<rparr>)"
  using remove_each_eq[of "failed (attempts e (clock st) (active_connections st))"
       "st\<lparr>clock := clock st + length (active_connections st),
             trace := trace st @ sends m (attempts e (clock st) (active_connections st))\<rparr>"]
     failed_subset[of e "clock st" "active_connections st"]
  by (simp add: broadcast_def send_each_eq)

text \<open>
  C4: for every state and every message, \<open>broadcast\<close> does not raise; it makes one send
  for each registered connection, in the order of the registry, whatever the outcome of
  the sends before; it leaves the log as it is; the connections left in the registry are,
  counted with their multiplicity, those whose send returned; when no connection is
  registered twice, the registry left is the old one without the connections whose send
  raised, in the same order; and on an empty registry the state does not change.
\<close>

theorem broadcast_delivers_and_prunes:
  "(case broadcast e message st of
      Inl err \<Rightarrow> False
    | Inr st' \<Rightarrow>
        map fst (attempts e (clock st) (active_connections st)) = active_connections st
      \<and> trace st' = trace st @ sends message (attempts e (clock st) (active_connections st))
      \<and> messages st' = messages st
      \<and> mset (active_connections st') =
          mset (delivered (attempts e (clock st) (active_connections st)))
      \<and> (distinct (active_connections st) \<longrightarrow>
           active_connections st' =
             filter (\<lambda>c. c \<notin> set (failed (attempts e (clock st) (active_connections st))))
               (active_connections st))
      \<and> (active_connections st = [] \<longrightarrow> st' = st))"
  by (simp add: broadcast_eq pruned_mset foldl_remove1_distinct)
    (simp add: failed_def sends_def)

theorem broadcast_delivers_and_prunes_witness:
  "distinct [1, 2, 3 :: nat]
   \<and> (case broadcast (env_up\<lparr>send_json := (\<lambda>t ws. ws \<noteq> 2)\<rparr>) hello
              (startup\<lparr>active_connections := [1, 2, 3]\<rparr>) of
        Inl err \<Rightarrow> False
      | Inr st' \<Rightarrow> active_connections st' = [1, 3]
          \<and> trace st' = [SendJson 1 ''new-message'' hello True,
                          SendJson 2 ''new-message'' hello False,
                          SendJson 3 ''new-message'' hello True])
   \<and> broadcast env_up hello startup = Inr startup"
  using broadcast_delivers_and_prunes[where e = "env_up\<lparr>send_json := (\<lambda>t ws. ws \<noteq> 2)\<rparr>"
          and message = hello and st = "startup\<lparr>active_connections := [1, 2, 3]\<rparr>"]
        broadcast_delivers_and_prunes[where e = env_up and message = hello and st = startup]
  by (simp add: startup_def env_up_def failed_def sends_def split: sum.splits)

section \<open>The auto-responder\<close>

lemma str_in_sublist: "str_in sub s \<longleftrightarrow> sublist sub s"
  by (induction s) (simp_all add: sublist_Cons_right)

lemma lower_char_question: "lower_char c = CHR ''?'' \<longleftrightarrow> c = CHR ''?''"
proof
  assume a: "lower_char c = CHR ''?''"
  show "c = CHR ''?''"
  proof (rule ccontr)
    assume n: "c \<noteq> CHR ''?''"
    with a have r: "65 \<le> (of_char c :: nat) \<and> (of_char c :: nat) \<le> 90"
      and "char_of (of_char c + 32 :: nat) = CHR ''?''"
      by (auto simp: lower_char_def Let_def split: if_splits)
    then have "(of_char (char_of (of_char c + 32 :: nat) :: char) :: nat) = of_char CHR ''?''"
      by simp
    with r show False by (simp add: of_char_of)
  qed
next
  assume "c = CHR ''?''"
  then show "lower_char c = CHR ''?''" by (simp add: lower_char_def)
qed

lemma sublist_single: "sublist [x] ys \<longleftrightarrow> x \<in> set ys"
  by (induction ys) (auto simp: sublist_Cons_right)

lemma question_mark_lower: "sublist ''?'' (lower u) \<longleftrightarrow> sublist ''?'' u"
proof -
  have "CHR ''?'' \<in> lower_char ` set u \<longleftrightarrow> CHR ''?'' \<in> set u"
    using lower_char_question by (metis (no_types, lifting) image_iff)
  then show ?thesis by (simp add: sublist_single lower_def)
qed

text \<open>
  C5: the reply to a text depends on the lower-cased text alone, by five cases tried in
  order, the first that holds deciding: the text contains "build" or "status" (kind
  notification); else "erro" or "fail" (kind alert); else "sucesso" or "success" (kind
  success); else "help", "ajuda" or a question mark (kind text, the help reply); else the
  default reply, of kind text. Containing is being a contiguous part: \<open>sublist\<close>.
\<close>

theorem bot_reply_priority:
  "bot_reply u =
     (if sublist ''build'' (lower u) \<or> sublist ''status'' (lower u) then
        (response_build, ''notification'')
      else if sublist ''erro'' (lower u) \<or> sublist ''fail'' (lower u) then
        (response_erro, ''alert'')
      else if sublist ''sucesso'' (lower u) \<or> sublist ''success'' (lower u) then
        (response_sucesso, ''success'')
      else if sublist ''help'' (lower u) \<or> sublist ''ajuda'' (lower u)
              \<or> sublist ''?'' (lower u) then
        (response_help, ''text'')
      else
        (response_default, ''text''))"
  by (simp add: bot_reply_def Let_def str_in_sublist question_mark_lower)

theorem bot_reply_priority_witness:
  "snd (bot_reply ''what is the build status?'') = ''notification''
   \<and> snd (bot_reply ''there was an erro'') = ''alert''
   \<and> snd (bot_reply ''success!'') = ''success''
   \<and> bot_reply ''help?'' = (response_help, ''text'')
   \<and> bot_reply ''hello'' = (response_default, ''text'')
   \<and> bot_reply ''A BUILD that FAILED?'' = (response_build, ''notification'')"
proof -
  have l: "lower ''A BUILD that FAILED?'' = ''a build that failed?''"
    by code_simp
  have "bot_reply ''A BUILD that FAILED?'' = (response_build, ''notification'')"
    using bot_reply_priority[of "''A BUILD that FAILED?''"]
    by (simp add: l sublist_Cons_right)
  then show ?thesis
    using bot_reply_priority[of "''what is the build status?''"]
      bot_reply_priority[of "''there was an erro''"]
      bot_reply_priority[of "''success!''"]
      bot_reply_priority[of "''help?''"]
      bot_reply_priority[of "''hello''"]
    by (simp add: lower_def lower_char_def sublist_Cons_right)
qed

section \<open>The queries\<close>

lemma slice_from_neg:
  "0 < n \<Longrightarrow> slice_from (- n) xs = drop (length xs - nat n) xs"
  by (auto simp: slice_from_def Let_def max_def nat_diff_distrib' intro: arg_cong[where f="\<lambda>k. drop k xs"])

lemma get_messages_positive:
  "0 < n \<Longrightarrow> get_messages (Some n) st = drop (length (messages st) - nat n) (messages st)
     \<and> length (get_messages (Some n) st) = min (nat n) (length (messages st))"
  by (auto simp: get_messages_def slice_from_neg)

lemma get_messages_default:
  "get_messages None st = drop (length (messages st) - 50) (messages st)"
  by (simp add: get_messages_def slice_from_neg)

text \<open>
  C7, at the bound 0: with one entry in the log, \<open>get_messages\<close> with \<open>limit = 0\<close>
  returns that entry, one entry where the last \<open>min 0 1 = 0\<close> entries are none. (For
  a bound above 0, and for the default 50, \<open>get_messages_positive\<close> and
  \<open>get_messages_default\<close> give the last entries, oldest first.)
\<close>

theorem get_messages_zero_returns_all:
  "get_messages (Some 0) (startup\<lparr>messages := [hello]\<rparr>) = [hello]
   \<and> length (get_messages (Some 0) (startup\<lparr>messages := [hello]\<rparr>))
       \<noteq> min 0 (length (messages (startup\<lparr>messages := [hello]\<rparr>)))"
  by (simp add: get_messages_def slice_from_def startup_def)

text \<open>
  C8: for every state, \<open>get_unread\<close> returns the number of positions of the log that
  hold an entry with \<open>read\<close> false and sender "bot".
\<close>

theorem get_unread_counts_unread_bot_entries:
  "get_unread st =
     [(''unread'',
       int (card {i. i < length (messages st)
                    \<and> \<not> read (messages st ! i) \<and> sender (messages st ! i) = ''bot''}))]"
  by (simp add: get_unread_def length_filter_conv_card sum_list_triv)

section \<open>The session: one turn of the loop\<close>

lemma broadcast_Inr:
  "\<exists>st'. broadcast e m st = Inr st'
     \<and> messages st' = messages st
     \<and> clock st' = clock st + length (active_connections st)
     \<and> trace st' = trace st @ sends m (attempts e (clock st) (active_connections st))
     \<and> mset (active_connections st') = mset (delivered (attempts e (clock st) (active_connections st)))"
  by (simp add: broadcast_eq pruned_mset)

text \<open>
  A frame of type "send-message" whose content is a text, or is absent: the turn does not
  raise, and is made of the two broadcasts, of the user entry and of the bot entry.
\<close>

lemma send_message_turn:
  assumes t: "dict_get d ''type'' = Some (JStr ''send-message'')"
    and c: "(case dict_get d ''content'' of None \<Rightarrow> JStr [] | Some v \<Rightarrow> v) = JStr c"
  shows "\<exists>user_msg bot_msg st1 st2.
      loop_body e (Some (JObj d)) st = Inr st2
    \<and> user_msg = \<lparr>id_msg = ''msg-'' @ uuid4 e (clock st), sender = ''user'', content = c,
                  timestamp = now e (clock st), read = True, status = ''sent'',
                  type = ''text'', metadata = None\<rparr>
    \<and> broadcast e user_msg (st\<lparr>clock := clock st + 1, messages := messages st @ [user_msg]\<rparr>)
        = Inr st1
    \<and> bot_msg = \<lparr>id_msg = ''msg-'' @ uuid4 e (clock st1 + 1), sender = ''bot'',
                  content = fst (bot_reply c), timestamp = now e (clock st1 + 1),
                  read = False, status = ''delivered'', type = snd (bot_reply c),
                  metadata = None\<rparr>
    \<and> broadcast e bot_msg
          ((sleep 1 st1)\<lparr>messages := messages st1 @ [bot_msg], clock := clock st1 + 2\<rparr>) = Inr st2"
proof -
  define user_msg where "user_msg = \<lparr>id_msg = ''msg-'' @ uuid4 e (clock st), sender = ''user'',
      content = c, timestamp = now e (clock st), read = True, status = ''sent'',
      type = ''text'', metadata = None\<rparr>"
  obtain st1 where b1:
    "broadcast e user_msg (st\<lparr>clock := clock st + 1, messages := messages st @ [user_msg]\<rparr>) = Inr st1"
    using broadcast_Inr by blast
  define bot_msg where "bot_msg = \<lparr>id_msg = ''msg-'' @ uuid4 e (clock st1 + 1), sender = ''bot'',
                  content = fst (bot_reply c), timestamp = now e (clock st1 + 1),
                  read = False, status = ''delivered'', type = snd (bot_reply c),
                  metadata = None\<rparr>"
  obtain st2 where b2: "broadcast e bot_msg
          ((sleep 1 st1)\<lparr>messages := messages st1 @ [bot_msg], clock := clock st1 + 2\<rparr>) = Inr st2"
    using broadcast_Inr by blast
  have "loop_body e (Some (JObj d)) st = Inr st2"
    using t c b1 b2
    by (simp add: loop_body_def str_field_def Let_def handle_bot_response_def sleep_def
        user_msg_def bot_msg_def split_beta)
  with b1 b2 show ?thesis
    unfolding user_msg_def bot_msg_def by blast
qed


lemma broadcast_facts:
  assumes "broadcast e m st = Inr st'"
  shows "messages st' = messages st"
    and "clock st' = clock st + length (active_connections st)"
    and "trace st' = trace st @ sends m (attempts e (clock st) (active_connections st))"
  using assms by (auto simp: broadcast_eq)

lemma turn_facts:
  assumes b1: "broadcast e user_msg
        (st\<lparr>clock := clock st + 1, messages := messages st @ [user_msg]\<rparr>) = Inr st1"
    and b2: "broadcast e bot_msg
        ((sleep 1 st1)\<lparr>messages := messages st1 @ [bot_msg], clock := clock st1 + 2\<rparr>) = Inr st2"
  shows "messages st1 = messages st @ [user_msg]"
    and "messages st2 = messages st @ [user_msg, bot_msg]"
    and "trace st2 = trace st
         @ sends user_msg (attempts e (clock st + 1) (active_connections st))
         @ [Sleep 1]
         @ sends bot_msg (attempts e (clock st1 + 2) (active_connections st1))"
  using broadcast_facts[OF b1] broadcast_facts[OF b2] by (simp_all add: sleep_def)

lemma bot_reply_build_status: "bot_reply ''build status'' = (response_build, ''notification'')"
  by (simp add: bot_reply_def lower_def lower_char_def)

text \<open>
  C3: a frame \<open>{type: "send-message", content: c}\<close> with a text \<open>c\<close>, received in
  any state. The turn does not raise. The log gains two entries, in this order: a user
  entry (sender "user", read, type "text") with content \<open>c\<close>, and a bot entry (sender
  "bot", not read, status "delivered") whose content and type are the reply to \<open>c\<close>.
  The user entry is broadcast from the state in which it has just been appended, to the
  connections registered then; after that comes the sleep of 1 second; the bot entry is
  broadcast from the state in which it has just been appended, to the connections that the
  first broadcast left registered. The trace holds these effects in this order.
\<close>

theorem send_message_appends_user_then_bot:
  assumes t: "dict_get d ''type'' = Some (JStr ''send-message'')"
    and c: "dict_get d ''content'' = Some (JStr c)"
  shows "\<exists>user_msg bot_msg st1 st2.
      loop_body e (Some (JObj d)) st = Inr st2
    \<and> messages st2 = messages st @ [user_msg, bot_msg]
    \<and> sender user_msg = ''user'' \<and> read user_msg \<and> type user_msg = ''text''
    \<and> content user_msg = c
    \<and> sender bot_msg = ''bot'' \<and> \<not> read bot_msg \<and> status bot_msg = ''delivered''
    \<and> (content bot_msg, type bot_msg) = bot_reply c
    \<and> broadcast e user_msg (st\<lparr>clock := clock st + 1, messages := messages st @ [user_msg]\<rparr>)
        = Inr st1
    \<and> broadcast e bot_msg
          ((sleep 1 st1)\<lparr>messages := messages st1 @ [bot_msg], clock := clock st1 + 2\<rparr>)
        = Inr st2
    \<and> trace st2 = trace st
         @ sends user_msg (attempts e (clock st + 1) (active_connections st))
         @ [Sleep 1]
         @ sends bot_msg (attempts e (clock st1 + 2) (active_connections st1))"
proof -
  from c have c': "(case dict_get d ''content'' of None \<Rightarrow> JStr [] | Some v \<Rightarrow> v) = JStr c"
    by simp
  from send_message_turn[OF t c', of e st]
  obtain user_msg bot_msg st1 st2 where
    l: "loop_body e (Some (JObj d)) st = Inr st2"
    and u: "user_msg = \<lparr>id_msg = ''msg-'' @ uuid4 e (clock st), sender = ''user'', content = c,
                  timestamp = now e (clock st), read = True, status = ''sent'',
                  type = ''text'', metadata = None\<rparr>"
    and b1: "broadcast e user_msg (st\<lparr>clock := clock st + 1, messages := messages st @ [user_msg]\<rparr>)
        = Inr st1"
    and b: "bot_msg = \<lparr>id_msg = ''msg-'' @ uuid4 e (clock st1 + 1), sender = ''bot'',
                  content = fst (bot_reply c), timestamp = now e (clock st1 + 1),
                  read = False, status = ''delivered'', type = snd (bot_reply c),
                  metadata = None\<rparr>"
    and b2: "broadcast e bot_msg
          ((sleep 1 st1)\<lparr>messages := messages st1 @ [bot_msg], clock := clock st1 + 2\<rparr>)
        = Inr st2"
    by blast
  have fu: "sender user_msg = ''user'' \<and> read user_msg \<and> type user_msg = ''text''
    \<and> content user_msg = c" by (simp add: u)
  have fb: "sender bot_msg = ''bot'' \<and> \<not> read bot_msg \<and> status bot_msg = ''delivered''
    \<and> (content bot_msg, type bot_msg) = bot_reply c" by (simp add: b)
  show ?thesis
    apply (rule exI[of _ user_msg], rule exI[of _ bot_msg])
    apply (rule exI[of _ st1], rule exI[of _ st2])
    using l turn_facts(2,3)[OF b1 b2] fu fb b1 b2 apply simp
    done
qed

theorem send_message_appends_user_then_bot_witness:
  "dict_get send_build_status ''type'' = Some (JStr ''send-message'')
   \<and> dict_get send_build_status ''content'' = Some (JStr ''build status'')
   \<and> (\<exists>user_msg bot_msg st2.
         loop_body env_up (Some (JObj send_build_status))
           (startup\<lparr>active_connections := [1, 2]\<rparr>) = Inr st2
       \<and> messages st2 = [user_msg, bot_msg]
       \<and> sender user_msg = ''user'' \<and> content user_msg = ''build status''
       \<and> sender bot_msg = ''bot'' \<and> type bot_msg = ''notification''
       \<and> trace st2 = [SendJson 1 ''new-message'' user_msg True,
                       SendJson 2 ''new-message'' user_msg True,
                       Sleep 1,
                       SendJson 1 ''new-message'' bot_msg True,
                       SendJson 2 ''new-message'' bot_msg True])"
proof -
  let ?st = "startup\<lparr>active_connections := [1, 2]\<rparr>"
  have h1: "dict_get send_build_status ''type'' = Some (JStr ''send-message'')"
    and h2: "dict_get send_build_status ''content'' = Some (JStr ''build status'')"
    by (simp_all add: dict_get_def send_build_status_def)
  from send_message_appends_user_then_bot[OF h1 h2, of env_up ?st]
  obtain user_msg bot_msg st1 st2 where
    l: "loop_body env_up (Some (JObj send_build_status)) ?st = Inr st2"
    and m: "messages st2 = messages ?st @ [user_msg, bot_msg]"
    and f: "sender user_msg = ''user''" "content user_msg = ''build status''"
      "sender bot_msg = ''bot''" "(content bot_msg, type bot_msg) = bot_reply ''build status''"
    and b1: "broadcast env_up user_msg
       (?st\<lparr>clock := clock ?st + 1, messages := messages ?st @ [user_msg]\<rparr>) = Inr st1"
    and tr: "trace st2 = trace ?st
         @ sends user_msg (attempts env_up (clock ?st + 1) (active_connections ?st))
         @ [Sleep 1]
         @ sends bot_msg (attempts env_up (clock st1 + 2) (active_connections st1))"
    by blast
  from b1 have a: "active_connections st1 = [1, 2]"
    by (auto simp: broadcast_eq startup_def env_up_def failed_def)
  have t: "type bot_msg = ''notification''"
    using f(4) by (simp add: bot_reply_build_status)
  have tr': "trace st2 = [SendJson 1 ''new-message'' user_msg True,
                       SendJson 2 ''new-message'' user_msg True,
                       Sleep 1,
                       SendJson 1 ''new-message'' bot_msg True,
                       SendJson 2 ''new-message'' bot_msg True]"
    using tr a by (simp add: startup_def env_up_def sends_def)
  show ?thesis
    apply (intro conjI h1 h2)
    apply (rule exI[of _ user_msg], rule exI[of _ bot_msg], rule exI[of _ st2])
    using l m f(1,2,3) t tr' apply (simp add: startup_def)
    done
qed

text \<open>
  C9: a frame of type "send-message" with no member "content" is not refused. The turn
  does not raise; the log gains a user entry with the empty text and then a bot entry
  that is the reply to the empty text, which is the default reply, of type "text"; both
  are broadcast, the sleep between them.
\<close>

theorem missing_content_is_empty_text:
  assumes t: "dict_get d ''type'' = Some (JStr ''send-message'')"
    and c: "dict_get d ''content'' = None"
  shows "\<exists>user_msg bot_msg (st1 :: state) st2.
      loop_body e (Some (JObj d)) st = Inr st2
    \<and> messages st2 = messages st @ [user_msg, bot_msg]
    \<and> sender user_msg = ''user'' \<and> content user_msg = []
    \<and> sender bot_msg = ''bot''
    \<and> (content bot_msg, type bot_msg) = bot_reply []
    \<and> bot_reply [] = (response_default, ''text'')
    \<and> trace st2 = trace st
         @ sends user_msg (attempts e (clock st + 1) (active_connections st))
         @ [Sleep 1]
         @ sends bot_msg (attempts e (clock st1 + 2) (active_connections st1))"
proof -
  have r: "bot_reply [] = (response_default, ''text'')"
    by (simp add: bot_reply_def lower_def)
  from c have c': "(case dict_get d ''content'' of None \<Rightarrow> JStr [] | Some v \<Rightarrow> v) = JStr []"
    by simp
  from send_message_turn[OF t c', of e st]
  obtain user_msg bot_msg st1 st2 where
    l: "loop_body e (Some (JObj d)) st = Inr st2"
    and u: "user_msg = \<lparr>id_msg = ''msg-'' @ uuid4 e (clock st), sender = ''user'', content = [],
                  timestamp = now e (clock st), read = True, status = ''sent'',
                  type = ''text'', metadata = None\<rparr>"
    and b1: "broadcast e user_msg (st\<lparr>clock := clock st + 1, messages := messages st @ [user_msg]\<rparr>)
        = Inr st1"
    and b: "bot_msg = \<lparr>id_msg = ''msg-'' @ uuid4 e (clock st1 + 1), sender = ''bot'',
                  content = fst (bot_reply []), timestamp = now e (clock st1 + 1),
                  read = False, status = ''delivered'', type = snd (bot_reply []),
                  metadata = None\<rparr>"
    and b2: "broadcast e bot_msg
          ((sleep 1 st1)\<lparr>messages := messages st1 @ [bot_msg], clock := clock st1 + 2\<rparr>)
        = Inr st2"
    by blast
  have fu: "sender user_msg = ''user'' \<and> content user_msg = []" by (simp add: u)
  have fb: "sender bot_msg = ''bot'' \<and> (content bot_msg, type bot_msg) = bot_reply []"
    by (simp add: b)
  show ?thesis
    apply (rule exI[of _ user_msg], rule exI[of _ bot_msg])
    apply (rule exI[of _ st1], rule exI[of _ st2])
    using l turn_facts(2,3)[OF b1 b2] fu fb r apply simp
    done
qed

theorem missing_content_is_empty_text_witness:
  "dict_get send_no_content ''type'' = Some (JStr ''send-message'')
   \<and> dict_get send_no_content ''content'' = None
   \<and> (\<exists>user_msg bot_msg st2.
         loop_body env_up (Some (JObj send_no_content))
           (startup\<lparr>active_connections := [1]\<rparr>) = Inr st2
       \<and> messages st2 = [user_msg, bot_msg]
       \<and> sender user_msg = ''user'' \<and> content user_msg = []
       \<and> sender bot_msg = ''bot''
       \<and> content bot_msg = response_default \<and> type bot_msg = ''text'')"
proof -
  let ?st = "startup\<lparr>active_connections := [1]\<rparr>"
  have h1: "dict_get send_no_content ''type'' = Some (JStr ''send-message'')"
    and h2: "dict_get send_no_content ''content'' = None"
    by (simp_all add: dict_get_def send_no_content_def)
  from missing_content_is_empty_text[OF h1 h2, of env_up ?st]
  obtain user_msg bot_msg st2 where
    l: "loop_body env_up (Some (JObj send_no_content)) ?st = Inr st2"
    and m: "messages st2 = messages ?st @ [user_msg, bot_msg]"
    and f: "sender user_msg = ''user''" "content user_msg = []"
      "sender bot_msg = ''bot''" "(content bot_msg, type bot_msg) = bot_reply []"
      "bot_reply [] = (response_default, ''text'')"
    by blast
  show ?thesis
    apply (intro conjI h1 h2)
    apply (rule exI[of _ user_msg], rule exI[of _ bot_msg], rule exI[of _ st2])
    using l m f apply (simp add: startup_def)
    done
qed

section \<open>The session: the loop\<close>



text \<open>
  C1, as stated, fails: a text that is not JSON, received by a connection that has just
  been registered, ends the loop with \<open>JSONDecodeError\<close>, and the frame sent after it
  is never handled; a JSON text that is not an object ends it with \<open>AttributeError\<close>.
  The connection stays in the registry.
\<close>

theorem unparsable_frame_ends_session:
  "websocket_endpoint env_up 1 [Text None, Text (Some (JObj send_build_status))] startup
     = Raised JSONDecodeError (startup\<lparr>active_connections := [1]\<rparr>)
   \<and> websocket_endpoint env_up 1 [Text (Some (JArr [])), Text (Some (JObj send_build_status))]
       startup
     = Raised AttributeError (startup\<lparr>active_connections := [1]\<rparr>)"
  by (simp add: websocket_endpoint_def loop_body_def startup_def)

text \<open>
  C1, amended: a frame that is a JSON object whose type is not "send-message" is dropped:
  the turn leaves the state as it is and the loop goes on with the next frame. A text
  that is not JSON, and a JSON value that is not an object, are not dropped: the
  exception leaves the loop, with the log and the registry as they were.
\<close>

theorem only_well_formed_other_frames_are_dropped:
  "(dict_get d ''type'' \<noteq> Some (JStr ''send-message'') \<longrightarrow>
      loop_body e (Some (JObj d)) st = Inr st
    \<and> receive_loop e ws (Text (Some (JObj d)) # rest) st = receive_loop e ws rest st)
   \<and> receive_loop e ws (Text None # rest) st = Raised JSONDecodeError st
   \<and> ((\<forall>d. v \<noteq> JObj d) \<longrightarrow>
        receive_loop e ws (Text (Some v) # rest) st = Raised AttributeError st)"
  by (cases v) (simp_all add: loop_body_def)

theorem only_well_formed_other_frames_are_dropped_witness:
  "dict_get send_ping ''type'' \<noteq> Some (JStr ''send-message'')
   \<and> (\<forall>d. JNum 7 \<noteq> JObj d)
   \<and> receive_loop env_up 1 [Text (Some (JObj send_ping))] startup = Receiving startup
   \<and> receive_loop env_up 1 [Text None, Text (Some (JObj send_ping))] startup
       = Raised JSONDecodeError startup
   \<and> receive_loop env_up 1 [Text (Some (JNum 7))] startup = Raised AttributeError startup"
  using only_well_formed_other_frames_are_dropped[where d = send_ping and e = env_up
      and st = startup and ws = 1 and rest = "[]" and v = "JNum 7"]
    only_well_formed_other_frames_are_dropped[where d = send_ping and e = env_up
      and st = startup and ws = 1 and rest = "[Text (Some (JObj send_ping))]" and v = "JNum 7"]
  by (simp add: dict_get_def send_ping_def)

text \<open>
  C2, on the code: a connection sends a message while every send raises, so the broadcast
  of its own message prunes it from the registry; when it then disconnects, the handler
  removes it again, and \<open>list.remove\<close> raises \<open>ValueError\<close>. The same happens for a
  connection that was never registered.
\<close>

theorem disconnect_after_prune_raises:
  "(case websocket_endpoint env_down 1
           [Text (Some (JObj send_build_status)), WebSocketDisconnect] startup of
      Raised err st \<Rightarrow> err = ValueError \<and> active_connections st = []
    | _ \<Rightarrow> False)
   \<and> receive_loop env_up 1 [WebSocketDisconnect] startup = Raised ValueError startup"
  by (simp add: websocket_endpoint_def loop_body_def dict_get_def send_build_status_def
      str_field_def broadcast_eq handle_bot_response_def sleep_def split_beta Let_def
      env_down_def env_up_def startup_def failed_def)

section \<open>Build notifications\<close>

lemma msg_type_of_table:
  "msg_type_of s =
     (if s = ''failure'' then ''alert'' else if s = ''success'' then ''success''
      else ''notification'')"
  by (simp add: msg_type_of_def dict_get_def)

lemma emoji_of_table:
  "emoji_of s =
     (if s = ''success'' then utf8 0x2705
      else if s = ''failure'' then utf8 0x274C
      else if s = ''running'' then utf8 0x1F504
      else if s = ''cancelled'' then utf8 0x26A0 @ utf8 0xFE0F
      else utf8 0x1F4E2)"
  by (simp add: emoji_of_def dict_get_def)

lemma detail_cases:
  "detail e d key placeholder =
     (case dict_get d key of
        None \<Rightarrow> placeholder
      | Some (JStr t) \<Rightarrow> t
      | Some v \<Rightarrow> format_value e v)"
  by (simp add: detail_def)

text \<open>
  C6: for every notification, in every state, \<open>notify_build\<close> does not raise and
  returns \<open>{"success": True}\<close>. It appends one entry to the log and broadcasts it from
  the state in which it has just been appended. The entry has sender "bot", is not read,
  has status "delivered" and the metadata \<open>buildId\<close> and \<open>workflow\<close> of the
  notification; its type is "alert" for the status "failure", "success" for "success",
  "notification" for any other status. Its content is the text written out here: the
  emoji of the status, the workflow, the status in upper case, the build id, and the four
  details, each in its own place (duration; tests passed before the stroke, tests run
  after it; coverage), where a detail that is missing is printed as its placeholder,
  "N/A" for the duration and "0" for the other three. The upper case of an ASCII status
  is that of its letters a to z.
\<close>

theorem notify_build_appends_and_acknowledges:
  "\<exists>bot_msg st'.
      notify_build e n st = Inr ([(''success'', True)], st')
    \<and> broadcast e bot_msg (st\<lparr>messages := messages st @ [bot_msg], clock := clock st + 1\<rparr>)
        = Inr st'
    \<and> messages st' = messages st @ [bot_msg]
    \<and> trace st' = trace st @ sends bot_msg (attempts e (clock st + 1) (active_connections st))
    \<and> sender bot_msg = ''bot'' \<and> \<not> read bot_msg \<and> status bot_msg = ''delivered''
    \<and> metadata bot_msg = Some [(''buildId'', buildId n), (''workflow'', workflow n)]
    \<and> type bot_msg =
         (if BuildNotification.status n = ''failure'' then ''alert''
          else if BuildNotification.status n = ''success'' then ''success''
          else ''notification'')
    \<and> content bot_msg =
         (let s = BuildNotification.status n;
              emoji = (if s = ''success'' then utf8 0x2705
                       else if s = ''failure'' then utf8 0x274C
                       else if s = ''running'' then utf8 0x1F504
                       else if s = ''cancelled'' then utf8 0x26A0 @ utf8 0xFE0F
                       else utf8 0x1F4E2);
              shown = (\<lambda>key placeholder.
                         case dict_get (details n) key of
                           None \<Rightarrow> placeholder
                         | Some (JStr t) \<Rightarrow> t
                         | Some v \<Rightarrow> format_value e v)
          in emoji @ '' **'' @ workflow n @ ''** - '' @ upper e s @ nl
             @ nl
             @ utf8 0x1F4CB @ '' Build ID: '' @ buildId n @ nl
             @ utf8 0x23F1 @ utf8 0xFE0F @ '' Dura'' @ utf8 0xE7 @ utf8 0xE3 @ ''o: ''
               @ shown ''duration'' ''N/A'' @ ''s'' @ nl
             @ utf8 0x1F9EA @ '' Testes: '' @ shown ''testsPassed'' ''0''
               @ ''/'' @ shown ''testsRun'' ''0'' @ '' passed'' @ nl
             @ utf8 0x1F4C8 @ '' Coverage: '' @ shown ''coverage'' ''0'' @ ''%'')
    \<and> (list_all (\<lambda>c. (of_char c :: nat) < 128) (BuildNotification.status n) \<longrightarrow>
          upper e (BuildNotification.status n) = map upper_char (BuildNotification.status n))"
proof -
  define bot_msg where "bot_msg = \<lparr>id_msg = ''notif-'' @ uuid4 e (clock st),
                     sender = ''bot'',
                     content = notify_content e n,
                     timestamp = now e (clock st),
                     read = False,
                     status = ''delivered'',
                     type = msg_type_of (BuildNotification.status n),
                     metadata = Some [(''buildId'', buildId n), (''workflow'', workflow n)]\<rparr>"
  obtain st' where b:
    "broadcast e bot_msg (st\<lparr>messages := messages st @ [bot_msg], clock := clock st + 1\<rparr>)
        = Inr st'"
    using broadcast_Inr by blast
  have n: "notify_build e n st = Inr ([(''success'', True)], st')"
    using b by (simp add: notify_build_def Let_def bot_msg_def)
  have f: "sender bot_msg = ''bot'' \<and> \<not> read bot_msg \<and> status bot_msg = ''delivered''
    \<and> metadata bot_msg = Some [(''buildId'', buildId n), (''workflow'', workflow n)]
    \<and> type bot_msg =
         (if BuildNotification.status n = ''failure'' then ''alert''
          else if BuildNotification.status n = ''success'' then ''success''
          else ''notification'')"
    by (simp add: bot_msg_def msg_type_of_table)
  have c: "content bot_msg =
         (let s = BuildNotification.status n;
              emoji = (if s = ''success'' then utf8 0x2705
                       else if s = ''failure'' then utf8 0x274C
                       else if s = ''running'' then utf8 0x1F504
                       else if s = ''cancelled'' then utf8 0x26A0 @ utf8 0xFE0F
                       else utf8 0x1F4E2);
              shown = (\<lambda>key placeholder.
                         case dict_get (details n) key of
                           None \<Rightarrow> placeholder
                         | Some (JStr t) \<Rightarrow> t
                         | Some v \<Rightarrow> format_value e v)
          in emoji @ '' **'' @ workflow n @ ''** - '' @ upper e s @ nl
             @ nl
             @ utf8 0x1F4CB @ '' Build ID: '' @ buildId n @ nl
             @ utf8 0x23F1 @ utf8 0xFE0F @ '' Dura'' @ utf8 0xE7 @ utf8 0xE3 @ ''o: ''
               @ shown ''duration'' ''N/A'' @ ''s'' @ nl
             @ utf8 0x1F9EA @ '' Testes: '' @ shown ''testsPassed'' ''0''
               @ ''/'' @ shown ''testsRun'' ''0'' @ '' passed'' @ nl
             @ utf8 0x1F4C8 @ '' Coverage: '' @ shown ''coverage'' ''0'' @ ''%'')"
    unfolding bot_msg_def notify_content_def emoji_of_table detail_cases Let_def
    by simp
  have u: "list_all (\<lambda>c. (of_char c :: nat) < 128) (BuildNotification.status n) \<longrightarrow>
          upper e (BuildNotification.status n) = map upper_char (BuildNotification.status n)"
    by (simp add: upper_def)
  show ?thesis
    apply (rule exI[of _ bot_msg], rule exI[of _ st'])
    using n b broadcast_facts(1,3)[OF b] f c u apply simp
    done
qed

theorem notify_build_appends_and_acknowledges_witness:
  "list_all (\<lambda>c. (of_char c :: nat) < 128) (BuildNotification.status build_42)
   \<and> list_all (\<lambda>c. (of_char c :: nat) < 128) (BuildNotification.status build_43)
   \<and> (\<exists>bot_msg st'.
         notify_build env_up build_42 (startup\<lparr>active_connections := [1]\<rparr>)
           = Inr ([(''success'', True)], st')
       \<and> messages st' = [bot_msg]
       \<and> trace st' = [SendJson 1 ''new-message'' bot_msg True]
       \<and> sender bot_msg = ''bot'' \<and> \<not> read bot_msg \<and> status bot_msg = ''delivered''
       \<and> type bot_msg = ''alert''
       \<and> metadata bot_msg = Some [(''buildId'', ''42''), (''workflow'', ''CI'')]
       \<and> content bot_msg = concat
            [utf8 0x274C @ '' **CI** - FAILURE'' @ nl,
             nl,
             utf8 0x1F4CB @ '' Build ID: 42'' @ nl,
             utf8 0x23F1 @ utf8 0xFE0F @ '' Dura'' @ utf8 0xE7 @ utf8 0xE3 @ ''o: N/As'' @ nl,
             utf8 0x1F9EA @ '' Testes: 0/0 passed'' @ nl,
             utf8 0x1F4C8 @ '' Coverage: 0%''])
   \<and> (\<exists>bot_msg st'.
         notify_build env_up build_43 startup = Inr ([(''success'', True)], st')
       \<and> messages st' = [bot_msg]
       \<and> type bot_msg = ''notification''
       \<and> content bot_msg = concat
            [utf8 0x1F504 @ '' **Deploy** - RUNNING'' @ nl,
             nl,
             utf8 0x1F4CB @ '' Build ID: 43'' @ nl,
             utf8 0x23F1 @ utf8 0xFE0F @ '' Dura'' @ utf8 0xE7 @ utf8 0xE3 @ ''o: N/As'' @ nl,
             utf8 0x1F9EA @ '' Testes: 48/0 passed'' @ nl,
             utf8 0x1F4C8 @ '' Coverage: 85.5%''])"
proof -
  let ?st = "startup\<lparr>active_connections := [1]\<rparr>"
  have a: "list_all (\<lambda>c. (of_char c :: nat) < 128) (BuildNotification.status build_42)"
    "list_all (\<lambda>c. (of_char c :: nat) < 128) (BuildNotification.status build_43)"
    by (simp_all add: build_42_def build_43_def)
  have u: "map upper_char ''failure'' = ''FAILURE''" "map upper_char ''running'' = ''RUNNING''"
    by code_simp+
  from notify_build_appends_and_acknowledges[of env_up build_42 ?st]
  obtain m1 s1 where
    n1: "notify_build env_up build_42 ?st = Inr ([(''success'', True)], s1)"
    and f1: "messages s1 = messages ?st @ [m1]"
      "trace s1 = trace ?st
        @ sends m1 (attempts env_up (clock ?st + 1) (active_connections ?st))"
      "sender m1 = ''bot''" "\<not> read m1" "status m1 = ''delivered''"
      "metadata m1 = Some [(''buildId'', buildId build_42), (''workflow'', workflow build_42)]"
      "type m1 =
         (if BuildNotification.status build_42 = ''failure'' then ''alert''
          else if BuildNotification.status build_42 = ''success'' then ''success''
          else ''notification'')"
    and c1: "content m1 =
         (let s = BuildNotification.status build_42;
              emoji = (if s = ''success'' then utf8 0x2705
                       else if s = ''failure'' then utf8 0x274C
                       else if s = ''running'' then utf8 0x1F504
                       else if s = ''cancelled'' then utf8 0x26A0 @ utf8 0xFE0F
                       else utf8 0x1F4E2);
              shown = (\<lambda>key placeholder.
                         case dict_get (details build_42) key of
                           None \<Rightarrow> placeholder
                         | Some (JStr t) \<Rightarrow> t
                         | Some v \<Rightarrow> format_value env_up v)
          in emoji @ '' **'' @ workflow build_42 @ ''** - '' @ upper env_up s @ nl
             @ nl
             @ utf8 0x1F4CB @ '' Build ID: '' @ buildId build_42 @ nl
             @ utf8 0x23F1 @ utf8 0xFE0F @ '' Dura'' @ utf8 0xE7 @ utf8 0xE3 @ ''o: ''
               @ shown ''duration'' ''N/A'' @ ''s'' @ nl
             @ utf8 0x1F9EA @ '' Testes: '' @ shown ''testsPassed'' ''0''
               @ ''/'' @ shown ''testsRun'' ''0'' @ '' passed'' @ nl
             @ utf8 0x1F4C8 @ '' Coverage: '' @ shown ''coverage'' ''0'' @ ''%'')"
    and u1: "list_all (\<lambda>c. (of_char c :: nat) < 128) (BuildNotification.status build_42) \<longrightarrow>
          upper env_up (BuildNotification.status build_42)
            = map upper_char (BuildNotification.status build_42)"
    by (elim exE conjE) (rule that, assumption+)
  from notify_build_appends_and_acknowledges[of env_up build_43 startup]
  obtain m2 s2 where
    n2: "notify_build env_up build_43 startup = Inr ([(''success'', True)], s2)"
    and f2: "messages s2 = messages startup @ [m2]"
      "type m2 =
         (if BuildNotification.status build_43 = ''failure'' then ''alert''
          else if BuildNotification.status build_43 = ''success'' then ''success''
          else ''notification'')"
    and c2: "content m2 =
         (let s = BuildNotification.status build_43;
              emoji = (if s = ''success'' then utf8 0x2705
                       else if s = ''failure'' then utf8 0x274C
                       else if s = ''running'' then utf8 0x1F504
                       else if s = ''cancelled'' then utf8 0x26A0 @ utf8 0xFE0F
                       else utf8 0x1F4E2);
              shown = (\<lambda>key placeholder.
                         case dict_get (details build_43) key of
                           None \<Rightarrow> placeholder
                         | Some (JStr t) \<Rightarrow> t
                         | Some v \<Rightarrow> format_value env_up v)
          in emoji @ '' **'' @ workflow build_43 @ ''** - '' @ upper env_up s @ nl
             @ nl
             @ utf8 0x1F4CB @ '' Build ID: '' @ buildId build_43 @ nl
             @ utf8 0x23F1 @ utf8 0xFE0F @ '' Dura'' @ utf8 0xE7 @ utf8 0xE3 @ ''o: ''
               @ shown ''duration'' ''N/A'' @ ''s'' @ nl
             @ utf8 0x1F9EA @ '' Testes: '' @ shown ''testsPassed'' ''0''
               @ ''/'' @ shown ''testsRun'' ''0'' @ '' passed'' @ nl
             @ utf8 0x1F4C8 @ '' Coverage: '' @ shown ''coverage'' ''0'' @ ''%'')"
    and u2: "list_all (\<lambda>c. (of_char c :: nat) < 128) (BuildNotification.status build_43) \<longrightarrow>
          upper env_up (BuildNotification.status build_43)
            = map upper_char (BuildNotification.status build_43)"
    by (elim exE conjE) (rule that, assumption+)
  have "upper env_up ''failure'' = map upper_char ''failure''"
    using u1[THEN mp, OF a(1)] by (simp add: build_42_def)
  then have up1: "upper env_up ''failure'' = ''FAILURE''"
    by (simp only: u)
  have "upper env_up ''running'' = map upper_char ''running''"
    using u2[THEN mp, OF a(2)] by (simp add: build_43_def)
  then have up2: "upper env_up ''running'' = ''RUNNING''"
    by (simp only: u)
  have k1: "content m1 = concat
            [utf8 0x274C @ '' **CI** - FAILURE'' @ nl,
             nl,
             utf8 0x1F4CB @ '' Build ID: 42'' @ nl,
             utf8 0x23F1 @ utf8 0xFE0F @ '' Dura'' @ utf8 0xE7 @ utf8 0xE3 @ ''o: N/As'' @ nl,
             utf8 0x1F9EA @ '' Testes: 0/0 passed'' @ nl,
             utf8 0x1F4C8 @ '' Coverage: 0%'']"
    unfolding c1 by (simp add: build_42_def dict_get_def up1)
  have k2: "content m2 = concat
            [utf8 0x1F504 @ '' **Deploy** - RUNNING'' @ nl,
             nl,
             utf8 0x1F4CB @ '' Build ID: 43'' @ nl,
             utf8 0x23F1 @ utf8 0xFE0F @ '' Dura'' @ utf8 0xE7 @ utf8 0xE3 @ ''o: N/As'' @ nl,
             utf8 0x1F9EA @ '' Testes: 48/0 passed'' @ nl,
             utf8 0x1F4C8 @ '' Coverage: 85.5%'']"
    unfolding c2 by (simp add: build_43_def dict_get_def up2)
  have t1: "type m1 = ''alert''"
    "metadata m1 = Some [(''buildId'', ''42''), (''workflow'', ''CI'')]"
    using f1(6,7) by (simp_all add: build_42_def)
  have t2: "type m2 = ''notification''"
    using f2(2) by (simp add: build_43_def)
  have tr1: "trace s1 = [SendJson 1 ''new-message'' m1 True]"
    using f1(2) by (simp add: startup_def env_up_def sends_def)
  have e1: "\<exists>bot_msg st'.
         notify_build env_up build_42 ?st = Inr ([(''success'', True)], st')
       \<and> messages st' = [bot_msg]
       \<and> trace st' = [SendJson 1 ''new-message'' bot_msg True]
       \<and> sender bot_msg = ''bot'' \<and> \<not> read bot_msg \<and> status bot_msg = ''delivered''
       \<and> type bot_msg = ''alert''
       \<and> metadata bot_msg = Some [(''buildId'', ''42''), (''workflow'', ''CI'')]
       \<and> content bot_msg = concat
            [utf8 0x274C @ '' **CI** - FAILURE'' @ nl,
             nl,
             utf8 0x1F4CB @ '' Build ID: 42'' @ nl,
             utf8 0x23F1 @ utf8 0xFE0F @ '' Dura'' @ utf8 0xE7 @ utf8 0xE3 @ ''o: N/As'' @ nl,
             utf8 0x1F9EA @ '' Testes: 0/0 passed'' @ nl,
             utf8 0x1F4C8 @ '' Coverage: 0%'']"
    apply (rule exI[of _ m1], rule exI[of _ s1])
    using n1 f1(1,3,4,5) tr1 t1 k1 apply (simp add: startup_def)
    done
  have e2: "\<exists>bot_msg st'.
         notify_build env_up build_43 startup = Inr ([(''success'', True)], st')
       \<and> messages st' = [bot_msg]
       \<and> type bot_msg = ''notification''
       \<and> content bot_msg = concat
            [utf8 0x1F504 @ '' **Deploy** - RUNNING'' @ nl,
             nl,
             utf8 0x1F4CB @ '' Build ID: 43'' @ nl,
             utf8 0x23F1 @ utf8 0xFE0F @ '' Dura'' @ utf8 0xE7 @ utf8 0xE3 @ ''o: N/As'' @ nl,
             utf8 0x1F9EA @ '' Testes: 48/0 passed'' @ nl,
             utf8 0x1F4C8 @ '' Coverage: 85.5%'']"
    apply (rule exI[of _ m2], rule exI[of _ s2])
    using n2 f2(1) t2 k2 apply (simp add: startup_def)
    done
  from a e1 e2 show ?thesis by (intro conjI)
qed

end
